theory Spec2Isabelle
  imports Complex_Main "HOL-Library.Product_Lexorder"
begin

section \<open>Data model\<close>

text \<open>
  The dashboard script \<^verbatim>\<open>app.py\<close> reshapes an uploaded wide table (one row per municipality,
  one column per year and indicator type) into a long table, normalises the values within
  each type, and derives rankings and a trend label from it.

  A cell of the uploaded table holds a number, some text, or nothing (a null of the
  columnar file, pandas' NaN/None). Float values are idealised as real numbers: rounding,
  overflow and infinities are outside the model, and the only special float is the missing
  value. Text is a list of bytes; what the script does with it is modelled for ASCII.
\<close>

datatype cell = Num real | Text string | Null

text \<open>
  A data frame as pandas has it: the column labels and the rows, each row holding one cell
  per column, in column order. The frames of interest have distinct labels and rows as long
  as the label list, as every frame read from a file has; \<open>cell_at\<close> reads the cell of a row
  under a label (and gives a null where a row is too short to have one).
\<close>

record dataframe =
  columns :: "string list"
  rows :: "cell list list"

text \<open>
  The label of the id column: \<^verbatim>\<open>Municipio\<close> with an acute accent on its second \<^verbatim>\<open>i\<close>, the
  accented letter written as the two bytes of its UTF-8 encoding.
\<close>

definition municipio_col :: string where
  "municipio_col = ''Munic'' @ [CHR 0xC3, CHR 0xAD] @ ''pio''"

definition cell_at :: "string list \<Rightarrow> cell list \<Rightarrow> string \<Rightarrow> cell" where
  "cell_at cols r c = (case map_of (zip cols r) c of Some v \<Rightarrow> v | None \<Rightarrow> Null)"

text \<open>One row of the long table; \<open>ano_variavel\<close> keeps the melted column label.\<close>

record long_row =
  municipio :: cell
  ano_variavel :: string
  valor :: "real option"
  ano :: int
  tipo :: "string option"
  valor_minmax_tipo :: "real option"
  valor_zscore_tipo :: "real option"

text \<open>The exceptions \<open>preparar_df_long\<close> can raise, all of them Python \<^verbatim>\<open>ValueError\<close>s.\<close>

datatype error =
    Municipio_nao_encontrada
  | Columns_must_be_same_length_as_key
  | Invalid_literal_for_int string

section \<open>Text helpers: \<^verbatim>\<open>str.split("_", n=1)\<close> and \<^verbatim>\<open>int\<close>\<close>

text \<open>
  \<^verbatim>\<open>str.split("_", n=1, expand=True)\<close> on one label: the text before the first underscore,
  and the text after it, or nothing when the label has no underscore.
\<close>

fun str_split1 :: "string \<Rightarrow> string \<times> string option" where
  "str_split1 [] = ([], None)"
| "str_split1 (c # cs) =
     (if c = CHR ''_'' then ([], Some cs)
      else (case str_split1 cs of (p, r) \<Rightarrow> (c # p, r)))"

text \<open>
  Python's \<^verbatim>\<open>int(s)\<close> on ASCII text: surrounding white space is dropped, one sign is allowed,
  at least one decimal digit must follow and nothing else. Digit separators are left out: the
  text converted here never holds an underscore.
\<close>

definition is_space :: "char \<Rightarrow> bool" where
  "is_space c = (c \<in> set [CHR 0x09, CHR 0x0A, CHR 0x0B, CHR 0x0C, CHR 0x0D,
                             CHR 0x1C, CHR 0x1D, CHR 0x1E, CHR 0x1F, CHR 0x20])"

definition strip :: "string \<Rightarrow> string" where
  "strip s = rev (dropWhile is_space (rev (dropWhile is_space s)))"

definition digit_val :: "char \<Rightarrow> nat option" where
  "digit_val c = (if 48 \<le> (of_char c :: nat) \<and> (of_char c :: nat) \<le> 57
                  then Some (of_char c - 48) else None)"

fun digits_val :: "nat \<Rightarrow> string \<Rightarrow> nat option" where
  "digits_val acc [] = Some acc"
| "digits_val acc (c # cs) =
     (case digit_val c of None \<Rightarrow> None | Some d \<Rightarrow> digits_val (10 * acc + d) cs)"

definition int_of_str :: "string \<Rightarrow> int option" where
  "int_of_str s =
     (case strip s of
        [] \<Rightarrow> None
      | c # cs \<Rightarrow>
          if c = CHR ''-'' then (if cs = [] then None else map_option (\<lambda>n. - int n) (digits_val 0 cs))
          else if c = CHR ''+'' then (if cs = [] then None else map_option int (digits_val 0 cs))
          else map_option int (digits_val 0 (c # cs)))"

text \<open>\<^verbatim>\<open>astype(int)\<close> on a column of text: every entry converts, or the first bad one raises.\<close>

fun astype_int :: "string list \<Rightarrow> error + int list" where
  "astype_int [] = Inr []"
| "astype_int (s # ss) =
     (case int_of_str s of
        None \<Rightarrow> Inl (Invalid_literal_for_int s)
      | Some n \<Rightarrow> (case astype_int ss of Inl e \<Rightarrow> Inl e | Inr ns \<Rightarrow> Inr (n # ns)))"

section \<open>Numeric coercion and descriptive statistics\<close>

text \<open>
  \<^verbatim>\<open>pd.to_numeric(..., errors="coerce")\<close>: a number stays, a null stays missing, text goes
  through the library's number parser and is missing when the parser rejects it. The parser
  is library code with a large grammar; it is a parameter \<open>P\<close> of the model, and every
  general statement below holds for any \<open>P\<close>.
\<close>

fun to_numeric :: "(string \<Rightarrow> real option) \<Rightarrow> cell \<Rightarrow> real option" where
  "to_numeric P (Num x) = Some x"
| "to_numeric P (Text s) = P s"
| "to_numeric P Null = None"

text \<open>A small instance of the text parser for worked examples: signed decimal integers.\<close>

definition coerce_integers :: "string \<Rightarrow> real option" where
  "coerce_integers s = map_option real_of_int (int_of_str s)"

text \<open>The present values of a series, in order (\<^verbatim>\<open>skipna=True\<close>, the default of every reduction).\<close>

fun dropna :: "real option list \<Rightarrow> real list" where
  "dropna [] = []"
| "dropna (None # s) = dropna s"
| "dropna (Some x # s) = x # dropna s"

definition s_min :: "real option list \<Rightarrow> real option" where
  "s_min s = (case dropna s of [] \<Rightarrow> None | x # xs \<Rightarrow> Some (fold min xs x))"

definition s_max :: "real option list \<Rightarrow> real option" where
  "s_max s = (case dropna s of [] \<Rightarrow> None | x # xs \<Rightarrow> Some (fold max xs x))"

definition s_mean :: "real option list \<Rightarrow> real option" where
  "s_mean s = (case dropna s of [] \<Rightarrow> None | x # xs \<Rightarrow> Some (sum_list (x # xs) / real (length (x # xs))))"

text \<open>\<^verbatim>\<open>Series.std()\<close>: the sample standard deviation (\<^verbatim>\<open>ddof=1\<close>), missing below two values.\<close>

definition s_std :: "real option list \<Rightarrow> real option" where
  "s_std s =
     (let xs = dropna s; n = length xs in
      if n < 2 then None
      else let m = sum_list xs / real n in
           Some (sqrt (sum_list (map (\<lambda>x. (x - m)\<^sup>2) xs) / real (n - 1))))"

section \<open>The reshaper \<open>preparar_df_long\<close>\<close>

text \<open>
  \<^verbatim>\<open>df.melt(id_vars=..., value_vars=value_cols)\<close>: the value columns are stacked one after the
  other, each contributing one entry per row of the frame.
\<close>

definition melt :: "dataframe \<Rightarrow> string list \<Rightarrow> (cell \<times> string \<times> cell) list" where
  "melt df value_vars =
     concat (map (\<lambda>c. map (\<lambda>r. (cell_at (columns df) r municipio_col, c, cell_at (columns df) r c))
                         (rows df)) value_vars)"

text \<open>The inner functions \<^verbatim>\<open>_minmax\<close> and \<^verbatim>\<open>_zscore\<close>, applied to the values of one group.\<close>

definition minmax :: "real option list \<Rightarrow> real option list" where
  "minmax s =
     (case (s_min s, s_max s) of
        (Some mn, Some mx) \<Rightarrow>
          if mx = mn then map (\<lambda>_. Some 0) s
          else map (map_option (\<lambda>x. (x - mn) / (mx - mn))) s
      | _ \<Rightarrow> map (\<lambda>_. Some 0) s)"

definition zscore :: "real option list \<Rightarrow> real option list" where
  "zscore s =
     (case (s_mean s, s_std s) of
        (Some m, Some std) \<Rightarrow>
          if std = 0 then map (\<lambda>_. Some 0) s
          else map (map_option (\<lambda>x. (x - m) / std)) s
      | _ \<Rightarrow> map (\<lambda>_. Some 0) s)"

text \<open>
  \<^verbatim>\<open>groupby(key)[col].transform(f)\<close>: \<open>f\<close> sees the values of each group in row order, and
  its result goes back to the rows of that group; a row whose key is missing belongs to no
  group and gets a missing result, as in current pandas.
\<close>

definition group_values :: "string option list \<Rightarrow> real option list \<Rightarrow> string \<Rightarrow> real option list" where
  "group_values keys vals t = map snd (filter (\<lambda>kv. fst kv = Some t) (zip keys vals))"

definition groupby_transform ::
  "(real option list \<Rightarrow> real option list) \<Rightarrow> string option list \<Rightarrow> real option list \<Rightarrow> real option list" where
  "groupby_transform f keys vals =
     map (\<lambda>i. case keys ! i of
                 None \<Rightarrow> None
               | Some t \<Rightarrow> f (group_values keys vals t) ! length (filter (\<lambda>k. k = Some t) (take i keys)))
         [0..<length keys]"

text \<open>The list \<^verbatim>\<open>value_cols\<close>: every column label but the id column's.\<close>

definition value_cols :: "dataframe \<Rightarrow> string list" where
  "value_cols df = filter (\<lambda>col. col \<noteq> municipio_col) (columns df)"

text \<open>
  The reshaper. Its steps and what can raise in each:
  \<^item> the explicit check for the id column;
  \<^item> the assignment of the split label to the two columns \<^verbatim>\<open>ano\<close> and \<^verbatim>\<open>tipo\<close>, which needs the
    expanded split to be two columns wide: at least one melted label must hold an underscore
    (labels without one then get a missing \<^verbatim>\<open>tipo\<close>);
  \<^item> \<^verbatim>\<open>astype(int)\<close> on the year text.
  The coercion of the values never raises.
\<close>

definition preparar_df_long :: "(string \<Rightarrow> real option) \<Rightarrow> dataframe \<Rightarrow> error + long_row list" where
  "preparar_df_long P df =
     (if municipio_col \<notin> set (columns df) then Inl Municipio_nao_encontrada
      else
        let melted = melt df (value_cols df);
            parts = map (\<lambda>(m, v, x). str_split1 v) melted
        in if \<not> list_ex (\<lambda>p. snd p \<noteq> None) parts then Inl Columns_must_be_same_length_as_key
           else (case astype_int (map fst parts) of
                   Inl e \<Rightarrow> Inl e
                 | Inr anos \<Rightarrow>
                     let tipos = map snd parts;
                         valores = map (\<lambda>(m, v, x). to_numeric P x) melted;
                         mm = groupby_transform minmax tipos valores;
                         zs = groupby_transform zscore tipos valores
                     in Inr (map (\<lambda>i. \<lparr>municipio = fst (melted ! i),
                                         ano_variavel = fst (snd (melted ! i)),
                                         valor = valores ! i,
                                         ano = anos ! i,
                                         tipo = tipos ! i,
                                         valor_minmax_tipo = mm ! i,
                                         valor_zscore_tipo = zs ! i\<rparr>)
                                  [0..<length melted])))"

section \<open>Loading and preparing: the top of the script\<close>

text \<open>
  What the script shows before it reaches the first section. \<^verbatim>\<open>st.stop()\<close> ends the run, so
  a stopped run carries no long table and none of the sections below is executed.
\<close>

datatype message = Warning_carregue_o_arquivo | Error_ao_preparar error

datatype carregamento = Stop message | Continue "long_row list"

definition carregar :: "(string \<Rightarrow> real option) \<Rightarrow> dataframe option \<Rightarrow> carregamento" where
  "carregar P file_df_final =
     (case file_df_final of
        None \<Rightarrow> Stop Warning_carregue_o_arquivo
      | Some df_final \<Rightarrow>
          (case preparar_df_long P df_final of
             Inl e \<Rightarrow> Stop (Error_ao_preparar e)
           | Inr df_long \<Rightarrow> Continue df_long))"

section \<open>Section 1: ranking by mean and the trend text\<close>

text \<open>
  \<^verbatim>\<open>groupby(key)["valor"].mean()\<close>: one entry per key, holding the mean of the present values
  of the rows with that key (missing when none is present); rows with a missing key are left
  out. The entries are listed by first appearance of the key. pandas lists them by key, but
  the entries are then sorted by value, and the default sort of \<^verbatim>\<open>sort_values\<close> promises no
  order between equal values, so the place of an entry among its equals carries no meaning
  here.
\<close>

fun unique :: "'k option list \<Rightarrow> 'k list" where
  "unique [] = []"
| "unique (None # ks) = unique ks"
| "unique (Some k # ks) = (if k \<in> set (unique ks) then unique ks else k # unique ks)"

definition groupby_mean :: "(long_row \<Rightarrow> 'k option) \<Rightarrow> long_row list \<Rightarrow> ('k \<times> real option) list" where
  "groupby_mean key df =
     map (\<lambda>k. (k, s_mean (map valor (filter (\<lambda>r. key r = Some k) df))))
         (rev (unique (rev (map key df))))"

text \<open>\<^verbatim>\<open>sort_values(ascending=...)\<close>: by value, missing values last in both directions.\<close>

fun value_key :: "bool \<Rightarrow> real option \<Rightarrow> nat \<times> real" where
  "value_key ascending None = (1, 0)"
| "value_key ascending (Some x) = (0, if ascending then x else - x)"

definition sort_values :: "bool \<Rightarrow> ('k \<times> real option) list \<Rightarrow> ('k \<times> real option) list" where
  "sort_values ascending s = sort_key (\<lambda>kv. value_key ascending (snd kv)) s"

definition municipio_key :: "long_row \<Rightarrow> cell option" where
  "municipio_key r = (if municipio r = Null then None else Some (municipio r))"

definition df_tipo_de :: "long_row list \<Rightarrow> string \<Rightarrow> long_row list" where
  "df_tipo_de df_long tipo_escolhido = filter (\<lambda>r. tipo r = Some tipo_escolhido) df_long"

definition rank_media :: "long_row list \<Rightarrow> (cell \<times> real option) list" where
  "rank_media df_tipo = sort_values False (groupby_mean municipio_key df_tipo)"

definition ano_key :: "long_row \<Rightarrow> int option" where
  "ano_key r = Some (ano r)"

definition media_ano :: "long_row list \<Rightarrow> (int \<times> real option) list" where
  "media_ano df_tipo = sort_values True (groupby_mean ano_key df_tipo)"

text \<open>Float comparison: false as soon as one side is missing (NaN).\<close>

fun nan_less :: "real option \<Rightarrow> real option \<Rightarrow> bool" where
  "nan_less (Some a) (Some b) = (a < b)"
| "nan_less _ _ = False"

datatype tendencia = Crescimento | Queda | Estavel | Sem_dados_suficientes

definition tendencia_de :: "(int \<times> real option) list \<Rightarrow> tendencia" where
  "tendencia_de m_ano =
     (if 2 \<le> length m_ano then
        let valor_ini = snd (hd m_ano); valor_fim = snd (last m_ano) in
        if nan_less (map_option (\<lambda>x. x * (105 / 100)) valor_fim) valor_ini then Crescimento
        else if nan_less valor_ini (map_option (\<lambda>x. x * (95 / 100)) valor_fim) then Queda
        else Estavel
      else Sem_dados_suficientes)"

record selecao =
  tipo_escolhido :: string
  limitar_municipios :: bool
  top_n :: nat

datatype secao1 =
    Warning_sem_valores_numericos
  | Grafico_e_interpretacao "long_row list" "(cell \<times> real option) list" tendencia

text \<open>
  Section 1 of the script: the rows of the chosen type; a warning when none of them has a
  value; otherwise the ranking, the rows plotted, the top three and the trend label.
\<close>

definition serie_por_tipo :: "long_row list \<Rightarrow> selecao \<Rightarrow> secao1" where
  "serie_por_tipo df_long sel =
     (let df_tipo = df_tipo_de df_long (tipo_escolhido sel) in
      if length (dropna (map valor df_tipo)) = 0 then Warning_sem_valores_numericos
      else
        let rank = rank_media df_tipo;
            df_plot_tipo =
              (if limitar_municipios sel
               then filter (\<lambda>r. municipio r \<in> set (map fst (take (top_n sel) rank))) df_tipo
               else df_tipo)
        in Grafico_e_interpretacao df_plot_tipo (take 3 rank) (tendencia_de (media_ano df_tipo)))"

section \<open>The round-trip law of the specification\<close>

text \<open>
  The specification's re-pivot of the long table by municipality and year/type key: the
  value of the one row with that municipality and key, and nothing when no row or more than
  one row has them.
\<close>

definition spec_pivot :: "long_row list \<Rightarrow> cell \<Rightarrow> int \<times> string option \<Rightarrow> real option option" where
  "spec_pivot df_long m k =
     (case filter (\<lambda>r. municipio r = m \<and> (ano r, tipo r) = k) df_long of
        [r] \<Rightarrow> Some (valor r)
      | _ \<Rightarrow> None)"

text \<open>A value of the long table read as a cell, and the year/type key of a column label.\<close>

fun cell_of_valor :: "real option \<Rightarrow> cell" where
  "cell_of_valor (Some x) = Num x"
| "cell_of_valor None = Null"

definition key_of_col :: "string \<Rightarrow> (int \<times> string option) option" where
  "key_of_col c = map_option (\<lambda>n. (n, snd (str_split1 c))) (int_of_str (fst (str_split1 c)))"

text \<open>
  The law: the pivot has the municipalities and the keys of the wide table and, at every
  municipality and key, the cell the wide table has there.
\<close>

definition spec_roundtrip :: "dataframe \<Rightarrow> long_row list \<Rightarrow> bool" where
  "spec_roundtrip df df_long \<longleftrightarrow>
     set (map municipio df_long) = set (map (\<lambda>r. cell_at (columns df) r municipio_col) (rows df)) \<and>
     set (map (\<lambda>r. Some (ano r, tipo r)) df_long) = set (map key_of_col (value_cols df)) \<and>
     (\<forall>r \<in> set (rows df). \<forall>c \<in> set (value_cols df).
        (case key_of_col c of
           None \<Rightarrow> False
         | Some k \<Rightarrow>
             map_option cell_of_valor (spec_pivot df_long (cell_at (columns df) r municipio_col) k)
               = Some (cell_at (columns df) r c)))"

section \<open>Notions used in the statements\<close>


text \<open>The order of a descending ranking: larger values first, missing values last.\<close>

fun desc_order :: "real option \<Rightarrow> real option \<Rightarrow> bool" where
  "desc_order (Some a) (Some b) = (b \<le> a)"
| "desc_order _ None = True"
| "desc_order None (Some b) = False"

section \<open>Worked examples\<close>

text \<open>
  Two municipalities, two years of \<open>geral\<close> and one of \<open>leitos_uti\<close>. The \<open>geral\<close> columns are
  numeric, with one null; the \<open>leitos_uti\<close> column is a text column, holding a number as text
  and a placeholder that is no number.
\<close>

definition exemplo_df :: dataframe where
  "exemplo_df =
     \<lparr>columns = [municipio_col, ''2017_geral'', ''2018_geral'', ''2018_leitos_uti''],
      rows = [[Text ''X'', Num 10, Num 20, Text ''n/d''],
              [Text ''Y'', Num 30, Null, Text ''5'']]\<rparr>"

definition exemplo_long :: "long_row list" where
  "exemplo_long =
     [\<lparr>municipio = Text ''X'', ano_variavel = ''2017_geral'', valor = Some 10, ano = 2017,
        tipo = Some ''geral'', valor_minmax_tipo = Some 0, valor_zscore_tipo = Some (- 1)\<rparr>,
      \<lparr>municipio = Text ''Y'', ano_variavel = ''2017_geral'', valor = Some 30, ano = 2017,
        tipo = Some ''geral'', valor_minmax_tipo = Some 1, valor_zscore_tipo = Some 1\<rparr>,
      \<lparr>municipio = Text ''X'', ano_variavel = ''2018_geral'', valor = Some 20, ano = 2018,
        tipo = Some ''geral'', valor_minmax_tipo = Some (1 / 2), valor_zscore_tipo = Some 0\<rparr>,
      \<lparr>municipio = Text ''Y'', ano_variavel = ''2018_geral'', valor = None, ano = 2018,
        tipo = Some ''geral'', valor_minmax_tipo = None, valor_zscore_tipo = None\<rparr>,
      \<lparr>municipio = Text ''X'', ano_variavel = ''2018_leitos_uti'', valor = None, ano = 2018,
        tipo = Some ''leitos_uti'', valor_minmax_tipo = Some 0, valor_zscore_tipo = Some 0\<rparr>,
      \<lparr>municipio = Text ''Y'', ano_variavel = ''2018_leitos_uti'', valor = Some 5, ano = 2018,
        tipo = Some ''leitos_uti'', valor_minmax_tipo = Some 0, valor_zscore_tipo = Some 0\<rparr>]"

text \<open>A table without the id column.\<close>

definition exemplo_sem_municipio :: dataframe where
  "exemplo_sem_municipio = \<lparr>columns = [''Cidade'', ''2017_geral''], rows = [[Text ''X'', Num 10]]\<rparr>"

text \<open>Year means 100 in 2017 and 94 in 2018 for the type \<open>geral\<close>, and a selection for section 1.\<close>

definition exemplo_tendencia_df :: dataframe where
  "exemplo_tendencia_df =
     \<lparr>columns = [municipio_col, ''2017_geral'', ''2018_geral''],
      rows = [[Text ''X'', Num 98, Num 94],
              [Text ''Y'', Num 102, Null]]\<rparr>"

definition exemplo_tendencia_long :: "long_row list" where
  "exemplo_tendencia_long =
     [\<lparr>municipio = Text ''X'', ano_variavel = ''2017_geral'', valor = Some 98, ano = 2017,
        tipo = Some ''geral'', valor_minmax_tipo = Some (1 / 2), valor_zscore_tipo = Some 0\<rparr>,
      \<lparr>municipio = Text ''Y'', ano_variavel = ''2017_geral'', valor = Some 102, ano = 2017,
        tipo = Some ''geral'', valor_minmax_tipo = Some 1, valor_zscore_tipo = Some 1\<rparr>,
      \<lparr>municipio = Text ''X'', ano_variavel = ''2018_geral'', valor = Some 94, ano = 2018,
        tipo = Some ''geral'', valor_minmax_tipo = Some 0, valor_zscore_tipo = Some (- 1)\<rparr>,
      \<lparr>municipio = Text ''Y'', ano_variavel = ''2018_geral'', valor = None, ano = 2018,
        tipo = Some ''geral'', valor_minmax_tipo = None, valor_zscore_tipo = None\<rparr>]"

definition exemplo_selecao :: selecao where
  "exemplo_selecao = \<lparr>tipo_escolhido = ''geral'', limitar_municipios = True, top_n = 10\<rparr>"

text \<open>A table in which one municipality has two rows.\<close>

definition exemplo_repetido_df :: dataframe where
  "exemplo_repetido_df =
     \<lparr>columns = [municipio_col, ''2017_geral''],
      rows = [[Text ''X'', Num 1], [Text ''X'', Num 2], [Text ''Y'', Num 3]]\<rparr>"

definition exemplo_repetido_long :: "long_row list" where
  "exemplo_repetido_long =
     [\<lparr>municipio = Text ''X'', ano_variavel = ''2017_geral'', valor = Some 1, ano = 2017,
        tipo = Some ''geral'', valor_minmax_tipo = Some 0, valor_zscore_tipo = Some (- 1)\<rparr>,
      \<lparr>municipio = Text ''X'', ano_variavel = ''2017_geral'', valor = Some 2, ano = 2017,
        tipo = Some ''geral'', valor_minmax_tipo = Some (1 / 2), valor_zscore_tipo = Some 0\<rparr>,
      \<lparr>municipio = Text ''Y'', ano_variavel = ''2017_geral'', valor = Some 3, ano = 2017,
        tipo = Some ''geral'', valor_minmax_tipo = Some 1, valor_zscore_tipo = Some 1\<rparr>]"

text \<open>The wide row of the specification's own example: one municipality, two years of \<open>geral\<close>.\<close>

definition exemplo_spec_df :: dataframe where
  "exemplo_spec_df =
     \<lparr>columns = [municipio_col, ''2017_geral'', ''2018_geral''],
      rows = [[Text ''X'', Num 10, Num 20]]\<rparr>"

section \<open>Auxiliary facts\<close>

subsection \<open>Melting, splitting, converting\<close>

lemma concat_map_nth:
  assumes "\<And>x. x \<in> set xs \<Longrightarrow> length (f x) = m" "j < length xs" "i < m"
  shows "concat (map f xs) ! (j * m + i) = f (xs ! j) ! i"
  using assms
proof (induction xs arbitrary: j)
  case Nil
  then show ?case by simp
next
  case (Cons x xs)
  show ?case
  proof (cases j)
    case 0
    with Cons.prems show ?thesis by (simp add: nth_append)
  next
    case (Suc j')
    have "concat (map f (x # xs)) ! (j * m + i) = concat (map f xs) ! (j' * m + i)"
      using Cons.prems Suc by (simp add: nth_append)
    also have "\<dots> = f (xs ! j') ! i"
      using Cons.prems Suc by (intro Cons.IH) auto
    finally show ?thesis using Suc by simp
  qed
qed

lemma length_concat_map_const:
  "(\<And>x. x \<in> set xs \<Longrightarrow> length (f x) = m) \<Longrightarrow> length (concat (map f xs)) = length xs * m"
  by (induction xs) auto

lemma length_melt: "length (melt df vs) = length vs * length (rows df)"
  unfolding melt_def by (rule length_concat_map_const) simp

lemma nth_melt:
  assumes "j < length vs" "i < length (rows df)"
  shows "melt df vs ! (j * length (rows df) + i) =
           (cell_at (columns df) (rows df ! i) municipio_col, vs ! j,
            cell_at (columns df) (rows df ! i) (vs ! j))"
proof -
  let ?f = "\<lambda>c. map (\<lambda>r. (cell_at (columns df) r municipio_col, c, cell_at (columns df) r c)) (rows df)"
  have "concat (map ?f vs) ! (j * length (rows df) + i) = ?f (vs ! j) ! i"
    using assms by (intro concat_map_nth) auto
  then show ?thesis using assms by (simp add: melt_def)
qed

lemma melt_label_in: "x \<in> set (melt df vs) \<Longrightarrow> fst (snd x) \<in> set vs"
  by (auto simp: melt_def)

lemma index_split:
  assumes "(k::nat) < n * m"
  shows "k div m < n" "k mod m < m" "k = (k div m) * m + k mod m"
proof -
  have m: "0 < m" using assms by (cases m) auto
  show "k div m < n" using assms m by (simp add: less_mult_imp_div_less)
  show "k mod m < m" using m by simp
  show "k = (k div m) * m + k mod m" by simp
qed

lemma astype_int_Inr:
  "astype_int ss = Inr ns \<Longrightarrow>
     length ns = length ss \<and> (\<forall>i<length ss. int_of_str (ss ! i) = Some (ns ! i))"
proof (induction ss arbitrary: ns)
  case Nil
  then show ?case by simp
next
  case (Cons s ss)
  then obtain n ns' where n: "int_of_str s = Some n" and ns': "astype_int ss = Inr ns'"
    and eq: "ns = n # ns'"
    by (auto split: option.splits sum.splits)
  from Cons.IH[OF ns'] n eq show ?case
    by (auto simp: nth_Cons split: nat.splits)
qed

lemma astype_int_Inr_iff:
  "(\<exists>ns. astype_int ss = Inr ns) \<longleftrightarrow> (\<forall>s\<in>set ss. int_of_str s \<noteq> None)"
  by (induction ss) (auto split: option.splits sum.splits)

lemma fst_str_split1: "fst (str_split1 s) = takeWhile (\<lambda>c. c \<noteq> CHR ''_'') s"
  by (induction s) (auto split: prod.splits)

lemma snd_str_split1:
  "snd (str_split1 s) =
     (if CHR ''_'' \<in> set s then Some (tl (dropWhile (\<lambda>c. c \<noteq> CHR ''_'') s)) else None)"
  by (induction s) (auto split: prod.splits)

lemma melt_labels:
  "map (\<lambda>x. fst (snd x)) (melt df vs) = concat (map (\<lambda>c. replicate (length (rows df)) c) vs)"
  by (induction vs) (simp_all add: melt_def o_def map_replicate_const)

subsection \<open>The shape of the reshaper's result\<close>

lemma map_nth_upt: "map (\<lambda>i. f (xs ! i)) [0..<length xs] = map f xs"
  by (rule nth_equalityI) auto

lemma preparar_df_long_Inr:
  assumes "preparar_df_long P df = Inr long"
  shows "municipio_col \<in> set (columns df)"
    and "list_ex (\<lambda>x. snd (str_split1 (fst (snd x))) \<noteq> None) (melt df (value_cols df))"
    and "length long = length (melt df (value_cols df))"
    and "map municipio long = map fst (melt df (value_cols df))"
    and "map ano_variavel long = map (\<lambda>x. fst (snd x)) (melt df (value_cols df))"
    and "map valor long = map (\<lambda>x. to_numeric P (snd (snd x))) (melt df (value_cols df))"
    and "astype_int (map (\<lambda>x. fst (str_split1 (fst (snd x)))) (melt df (value_cols df))) = Inr (map ano long)"
    and "map tipo long = map (\<lambda>x. snd (str_split1 (fst (snd x)))) (melt df (value_cols df))"
    and "map valor_minmax_tipo long = groupby_transform minmax (map tipo long) (map valor long)"
    and "map valor_zscore_tipo long = groupby_transform zscore (map tipo long) (map valor long)"
proof -
  let ?melted = "melt df (value_cols df)"
  let ?parts = "map (\<lambda>(m, v, x). str_split1 v) ?melted"
  let ?tipos = "map snd ?parts"
  let ?valores = "map (\<lambda>(m, v, x). to_numeric P x) ?melted"
  have parts: "?parts = map (\<lambda>x. str_split1 (fst (snd x))) ?melted"
    by (simp add: case_prod_beta)
  have tipos: "?tipos = map (\<lambda>x. snd (str_split1 (fst (snd x)))) ?melted"
    by (simp add: case_prod_beta)
  have valores: "?valores = map (\<lambda>x. to_numeric P (snd (snd x))) ?melted"
    by (simp add: case_prod_beta)
  have fsts: "map fst ?parts = map (\<lambda>x. fst (str_split1 (fst (snd x)))) ?melted"
    by (simp add: case_prod_beta)
  from assms show mun: "municipio_col \<in> set (columns df)"
    by (auto simp: preparar_df_long_def split: if_splits)
  from assms mun have ex: "list_ex (\<lambda>p. snd p \<noteq> None) ?parts"
    by (auto simp: preparar_df_long_def Let_def split: if_splits)
  then show "list_ex (\<lambda>x. snd (str_split1 (fst (snd x))) \<noteq> None) ?melted"
    by (simp add: list_ex_iff case_prod_beta)
  from assms mun ex obtain anos where anos: "astype_int (map fst ?parts) = Inr anos"
    and long: "long = map (\<lambda>i. \<lparr>municipio = fst (?melted ! i),
                                         ano_variavel = fst (snd (?melted ! i)),
                                         valor = ?valores ! i,
                                         ano = anos ! i,
                                         tipo = ?tipos ! i,
                                         valor_minmax_tipo = groupby_transform minmax ?tipos ?valores ! i,
                                         valor_zscore_tipo = groupby_transform zscore ?tipos ?valores ! i\<rparr>)
                                  [0..<length ?melted]"
    by (auto simp: preparar_df_long_def Let_def split: if_splits sum.splits)
  have len_anos: "length anos = length ?melted"
    using astype_int_Inr[OF anos] by simp
  have len_mm: "length (groupby_transform f ?tipos ?valores) = length ?melted" for f
    by (simp add: groupby_transform_def)
  show "length long = length ?melted" by (simp add: long)
  show "map municipio long = map fst ?melted"
    by (rule nth_equalityI) (simp_all add: long)
  show "map ano_variavel long = map (\<lambda>x. fst (snd x)) ?melted"
    by (rule nth_equalityI) (simp_all add: long)
  show v: "map valor long = map (\<lambda>x. to_numeric P (snd (snd x))) ?melted"
    by (rule nth_equalityI) (simp_all add: long case_prod_beta)
  have "map ano long = anos"
    by (rule nth_equalityI) (simp_all add: long len_anos)
  with anos show "astype_int (map (\<lambda>x. fst (str_split1 (fst (snd x)))) ?melted) = Inr (map ano long)"
    unfolding fsts by simp
  show t: "map tipo long = map (\<lambda>x. snd (str_split1 (fst (snd x)))) ?melted"
    by (rule nth_equalityI) (simp_all add: long case_prod_beta)
  have t': "map tipo long = ?tipos" using t tipos by simp
  have v': "map valor long = ?valores" using v valores by simp
  show "map valor_minmax_tipo long = groupby_transform minmax (map tipo long) (map valor long)"
    unfolding t' v' by (rule nth_equalityI) (simp_all add: long len_mm del: map_map)
  show "map valor_zscore_tipo long = groupby_transform zscore (map tipo long) (map valor long)"
    unfolding t' v' by (rule nth_equalityI) (simp_all add: long len_mm del: map_map)
qed

lemma preparar_df_long_nth:
  assumes "preparar_df_long P df = Inr long" "j < length (value_cols df)" "i < length (rows df)"
  defines "k \<equiv> j * length (rows df) + i"
  shows "k < length long"
    and "municipio (long ! k) = cell_at (columns df) (rows df ! i) municipio_col"
    and "ano_variavel (long ! k) = value_cols df ! j"
    and "valor (long ! k) = to_numeric P (cell_at (columns df) (rows df ! i) (value_cols df ! j))"
proof -
  let ?melted = "melt df (value_cols df)"
  note R = preparar_df_long_Inr[OF assms(1)]
  have "j * length (rows df) + i < j * length (rows df) + length (rows df)"
    using assms(3) by simp
  also have "\<dots> = Suc j * length (rows df)" by simp
  also have "\<dots> \<le> length (value_cols df) * length (rows df)"
    using assms(2) by (intro mult_le_mono1) simp
  finally show k: "k < length long"
    by (simp add: k_def R(3) length_melt)
  have m: "?melted ! k = (cell_at (columns df) (rows df ! i) municipio_col, value_cols df ! j,
            cell_at (columns df) (rows df ! i) (value_cols df ! j))"
    unfolding k_def by (rule nth_melt[OF assms(2,3)])
  have "municipio (long ! k) = map municipio long ! k" using k by simp
  also have "\<dots> = fst (?melted ! k)" using k unfolding R(4) by (simp add: R(3))
  finally show "municipio (long ! k) = cell_at (columns df) (rows df ! i) municipio_col"
    by (simp add: m)
  have "ano_variavel (long ! k) = map ano_variavel long ! k" using k by simp
  also have "\<dots> = fst (snd (?melted ! k))" using k unfolding R(5) by (simp add: R(3))
  finally show "ano_variavel (long ! k) = value_cols df ! j"
    by (simp add: m)
  have "valor (long ! k) = map valor long ! k" using k by simp
  also have "\<dots> = to_numeric P (snd (snd (?melted ! k)))" using k unfolding R(6) by (simp add: R(3))
  finally show "valor (long ! k) = to_numeric P (cell_at (columns df) (rows df ! i) (value_cols df ! j))"
    by (simp add: m)
qed

lemma preparar_df_long_label:
  assumes "preparar_df_long P df = Inr long" "r \<in> set long"
  shows "ano_variavel r \<in> set (value_cols df)"
    and "int_of_str (fst (str_split1 (ano_variavel r))) = Some (ano r)"
    and "tipo r = snd (str_split1 (ano_variavel r))"
proof -
  let ?melted = "melt df (value_cols df)"
  note R = preparar_df_long_Inr[OF assms(1)]
  from assms(2) obtain k where k: "k < length long" and r: "r = long ! k"
    by (auto simp: in_set_conv_nth)
  have lab: "ano_variavel r = fst (snd (?melted ! k))"
  proof -
    have "ano_variavel r = map ano_variavel long ! k" using k r by simp
    also have "\<dots> = fst (snd (?melted ! k))" using k unfolding R(5) by (simp add: R(3))
    finally show ?thesis .
  qed
  have "?melted ! k \<in> set ?melted" using k by (simp add: R(3))
  then show "ano_variavel r \<in> set (value_cols df)"
    unfolding lab by (rule melt_label_in)
  have "int_of_str (map (\<lambda>x. fst (str_split1 (fst (snd x)))) ?melted ! k) = Some (map ano long ! k)"
    using astype_int_Inr[OF R(7)] k by (simp add: R(3))
  then show "int_of_str (fst (str_split1 (ano_variavel r))) = Some (ano r)"
    using k r lab by (simp add: R(3))
  have "tipo r = map tipo long ! k" using k r by simp
  also have "\<dots> = snd (str_split1 (fst (snd (?melted ! k))))" using k unfolding R(8) by (simp add: R(3))
  finally show "tipo r = snd (str_split1 (ano_variavel r))" by (simp add: lab)
qed

text \<open>
  When the reshaper returns: the id column is there, the frame has a row, some value label
  holds an underscore, and the text before the first underscore of every value label (the
  whole label when it has none) converts to an integer. The cells play no part.
\<close>

lemma preparar_df_long_accepts_iff:
  "(\<exists>long. preparar_df_long P df = Inr long) \<longleftrightarrow>
     municipio_col \<in> set (columns df) \<and> rows df \<noteq> [] \<and>
     (\<exists>c \<in> set (value_cols df). CHR ''_'' \<in> set c) \<and>
     (\<forall>c \<in> set (value_cols df). int_of_str (takeWhile (\<lambda>x. x \<noteq> CHR ''_'') c) \<noteq> None)"
proof -
  let ?melted = "melt df (value_cols df)"
  let ?labels = "map (\<lambda>x. fst (snd x)) ?melted"
  have set_labels: "set ?labels = (if rows df = [] then {} else set (value_cols df))"
    unfolding melt_labels by auto
  have parts: "map (\<lambda>(m, v, x). str_split1 v) ?melted = map str_split1 ?labels"
    by (simp add: case_prod_beta)
  have gen: "list_ex (\<lambda>p. snd p \<noteq> None) (map str_split1 ls) \<longleftrightarrow> (\<exists>c \<in> set ls. CHR ''_'' \<in> set c)"
    for ls
    by (induction ls) (simp_all add: snd_str_split1)
  have ex: "list_ex (\<lambda>p. snd p \<noteq> None) (map str_split1 ?labels) \<longleftrightarrow>
            rows df \<noteq> [] \<and> (\<exists>c \<in> set (value_cols df). CHR ''_'' \<in> set c)"
    unfolding gen set_labels by simp
  have conv: "(\<exists>ns. astype_int (map fst (map str_split1 ?labels)) = Inr ns) \<longleftrightarrow>
              (\<forall>c \<in> set ?labels. int_of_str (takeWhile (\<lambda>x. x \<noteq> CHR ''_'') c) \<noteq> None)"
    unfolding astype_int_Inr_iff by (simp add: fst_str_split1)
  have "(\<exists>long. preparar_df_long P df = Inr long) \<longleftrightarrow>
        municipio_col \<in> set (columns df) \<and> list_ex (\<lambda>p. snd p \<noteq> None) (map str_split1 ?labels) \<and>
        (\<exists>ns. astype_int (map fst (map str_split1 ?labels)) = Inr ns)"
    unfolding preparar_df_long_def Let_def parts
    by (auto split: sum.splits)
  also have "\<dots> \<longleftrightarrow> municipio_col \<in> set (columns df) \<and> rows df \<noteq> [] \<and>
     (\<exists>c \<in> set (value_cols df). CHR ''_'' \<in> set c) \<and>
     (\<forall>c \<in> set (value_cols df). int_of_str (takeWhile (\<lambda>x. x \<noteq> CHR ''_'') c) \<noteq> None)"
    unfolding ex conv using set_labels by (auto simp del: set_map)
  finally show ?thesis .
qed

subsection \<open>Statistics skip missing values\<close>

lemma dropna_filter_present: "dropna (filter (\<lambda>v. v \<noteq> None) s) = dropna s"
  by (induction s rule: dropna.induct) simp_all


subsection \<open>Group-wise transforms\<close>








subsection \<open>Minimum, maximum, mean and deviation of the present values\<close>







lemma s_mean_None_iff: "s_mean s = None \<longleftrightarrow> dropna s = []"
  by (simp add: s_mean_def split: list.splits)










subsection \<open>Grouping and sorting\<close>

lemma set_unique: "set (unique ks) = {k. Some k \<in> set ks}"
  by (induction ks rule: unique.induct) auto

lemma distinct_unique: "distinct (unique ks)"
  by (induction ks rule: unique.induct) (auto simp: set_unique)

lemma groupby_mean_keys:
  "set (map fst (groupby_mean key df)) = {k. \<exists>r \<in> set df. key r = Some k}"
  "distinct (map fst (groupby_mean key df))"
proof -
  have fst: "map fst (groupby_mean key df) = rev (unique (rev (map key df)))"
    by (simp add: groupby_mean_def o_def)
  show "set (map fst (groupby_mean key df)) = {k. \<exists>r \<in> set df. key r = Some k}"
    unfolding fst by (force simp: set_unique image_iff)
  show "distinct (map fst (groupby_mean key df))"
    unfolding fst by (simp add: distinct_unique)
qed

lemma groupby_mean_entry:
  "(k, v) \<in> set (groupby_mean key df) \<Longrightarrow> v = s_mean (map valor (filter (\<lambda>r. key r = Some k) df))"
  by (auto simp: groupby_mean_def)

lemma filter_municipio_key:
  "m \<noteq> Null \<Longrightarrow> filter (\<lambda>r. municipio_key r = Some m) df = filter (\<lambda>r. municipio r = m) df"
  by (rule filter_cong) (auto simp: municipio_key_def)

lemma sort_values_set: "set (sort_values asc s) = set s"
  by (simp add: sort_values_def)

lemma sort_values_keys: "set (map fst (sort_values asc s)) = set (map fst s)"
  by (simp add: sort_values_def)

lemma sort_values_length: "length (sort_values asc s) = length s"
  by (simp add: sort_values_def)

lemma sort_values_distinct_keys:
  "distinct (map fst s) \<Longrightarrow> distinct (map fst (sort_values asc s))"
  by (simp add: sort_values_def distinct_map)

lemma sort_values_desc:
  assumes "i < j" "j < length (sort_values False s)"
  shows "desc_order (snd (sort_values False s ! i)) (snd (sort_values False s ! j))"
proof -
  let ?k = "\<lambda>kv::'a \<times> real option. value_key False (snd kv)"
  let ?xs = "sort_values False s"
  have "sorted (map ?k ?xs)"
    unfolding sort_values_def by (rule sorted_sort_key)
  then have "map ?k ?xs ! i \<le> map ?k ?xs ! j"
    using assms by (intro sorted_nth_mono) simp_all
  then have "?k (?xs ! i) \<le> ?k (?xs ! j)"
    using assms by simp
  then show ?thesis
    by (cases "snd (?xs ! i)"; cases "snd (?xs ! j)") simp_all
qed

text \<open>
  With \<^verbatim>\<open>sort_values()\<close> in place the first entry of \<^verbatim>\<open>media_ano\<close> is never above the last one,
  so as long as no year mean is negative the growth label cannot come out.
\<close>

lemma tendencia_never_crescimento:
  assumes "\<forall>kv \<in> set (groupby_mean ano_key df_tipo). \<forall>x. snd kv = Some x \<longrightarrow> 0 \<le> x"
  shows "tendencia_de (media_ano df_tipo) \<noteq> Crescimento"
proof (cases "2 \<le> length (media_ano df_tipo)")
  case False
  then show ?thesis by (simp add: tendencia_de_def)
next
  case True
  let ?xs = "media_ano df_tipo"
  let ?k = "\<lambda>kv::int \<times> real option. value_key True (snd kv)"
  have ne: "?xs \<noteq> []" using True by auto
  have srt: "sorted (map ?k ?xs)"
    unfolding media_ano_def sort_values_def by (rule sorted_sort_key)
  have "map ?k ?xs ! 0 \<le> map ?k ?xs ! (length ?xs - 1)"
    using True by (intro sorted_nth_mono[OF srt]) simp_all
  then have le: "?k (hd ?xs) \<le> ?k (last ?xs)"
    using ne True by (simp add: hd_conv_nth last_conv_nth)
  have "last ?xs \<in> set (groupby_mean ano_key df_tipo)"
    using last_in_set[OF ne] by (simp add: media_ano_def sort_values_set)
  then have nonneg: "\<forall>x. snd (last ?xs) = Some x \<longrightarrow> 0 \<le> x"
    using assms by blast
  have "\<not> nan_less (map_option (\<lambda>x. x * (105 / 100)) (snd (last ?xs))) (snd (hd ?xs))"
  proof (cases "snd (last ?xs)")
    case None
    then show ?thesis by simp
  next
    case (Some b)
    show ?thesis
    proof (cases "snd (hd ?xs)")
      case None
      then show ?thesis by (simp add: Some)
    next
      case (Some a)
      from le have "a \<le> b" by (simp add: Some \<open>snd (last ?xs) = Some b\<close>)
      moreover have "0 \<le> b" using nonneg \<open>snd (last ?xs) = Some b\<close> by simp
      ultimately have "a \<le> b * (105 / 100)" by simp
      then show ?thesis by (simp add: Some \<open>snd (last ?xs) = Some b\<close>)
    qed
  qed
  then show ?thesis using True by (simp add: tendencia_de_def Let_def)
qed

subsection \<open>Pivoting back\<close>

lemma filter_eq_singleton:
  assumes "k < length xs" "Q (xs ! k)" "\<And>k'. k' < length xs \<Longrightarrow> Q (xs ! k') \<Longrightarrow> k' = k"
  shows "filter Q xs = [xs ! k]"
proof -
  have xs: "xs = take k xs @ xs ! k # drop (Suc k) xs"
    using assms(1) by (simp add: id_take_nth_drop)
  have "\<not> Q x" if "x \<in> set (take k xs)" for x
  proof -
    from that obtain i where "i < k" "i < length xs" "x = xs ! i"
      using assms(1) by (auto simp: in_set_conv_nth)
    then show ?thesis using assms(3)[of i] by auto
  qed
  then have a: "filter Q (take k xs) = []" by (simp add: filter_empty_conv)
  have "\<not> Q x" if "x \<in> set (drop (Suc k) xs)" for x
  proof -
    from that obtain i where "i < length (drop (Suc k) xs)" "x = drop (Suc k) xs ! i"
      by (auto simp: in_set_conv_nth)
    then have "Suc k + i < length xs" "x = xs ! (Suc k + i)"
      by simp_all
    then show ?thesis using assms(3)[of "Suc k + i"] by auto
  qed
  then have b: "filter Q (drop (Suc k) xs) = []" by (simp add: filter_empty_conv)
  show ?thesis by (subst xs) (simp add: a b assms(2))
qed

lemma key_of_col_label:
  assumes "preparar_df_long P df = Inr long" "r \<in> set long"
  shows "key_of_col (ano_variavel r) = Some (ano r, tipo r)"
  using preparar_df_long_label(2,3)[OF assms] by (simp add: key_of_col_def)

lemma cell_of_valor_to_numeric:
  "\<forall>s. c \<noteq> Text s \<Longrightarrow> cell_of_valor (to_numeric P c) = c"
  by (cases c) simp_all

lemma preparar_df_long_sets:
  assumes "preparar_df_long P df = Inr long"
  shows "set (map municipio long) = set (map (\<lambda>r. cell_at (columns df) r municipio_col) (rows df))"
    and "set (map ano_variavel long) = set (value_cols df)"
proof -
  note R = preparar_df_long_Inr[OF assms]
  have "\<exists>l. preparar_df_long P df = Inr l" using assms by blast
  then have ne: "rows df \<noteq> []" "value_cols df \<noteq> []"
    unfolding preparar_df_long_accepts_iff by auto
  have "map fst (melt df vs) = concat (map (\<lambda>c. map (\<lambda>r. cell_at (columns df) r municipio_col) (rows df)) vs)"
    for vs
    by (induction vs) (simp_all add: melt_def)
  then show "set (map municipio long) = set (map (\<lambda>r. cell_at (columns df) r municipio_col) (rows df))"
    unfolding R(4) using ne(2) by simp
  show "set (map ano_variavel long) = set (value_cols df)"
    unfolding R(5) melt_labels using ne(1) by auto
qed

subsection \<open>Evaluation of the examples\<close>

lemmas eval_defs =
  preparar_df_long_def municipio_col_def melt_def cell_at_def Let_def value_cols_def
  int_of_str_def strip_def is_space_def digit_val_def coerce_integers_def
  groupby_transform_def group_values_def upt_rec[of "numeral _"] upt_rec[of 0]
  minmax_def zscore_def s_min_def s_max_def s_mean_def s_std_def

lemma preparar_exemplo: "preparar_df_long coerce_integers exemplo_df = Inr exemplo_long"
  by (simp add: exemplo_df_def exemplo_long_def eval_defs)

lemma value_cols_exemplo:
  "value_cols exemplo_df = [''2017_geral'', ''2018_geral'', ''2018_leitos_uti'']"
  by (simp add: exemplo_df_def value_cols_def municipio_col_def)

text \<open>
  The model on the specification's example: the two long rows with years 2017 and 2018, type
  \<open>geral\<close>, and min-max values 0 and 1.
\<close>

lemma preparar_exemplo_spec:
  "map_sum id (map (\<lambda>r. (municipio r, ano r, tipo r, valor r, valor_minmax_tipo r)))
     (preparar_df_long coerce_integers exemplo_spec_df)
   = Inr [(Text ''X'', 2017, Some ''geral'', Some 10, Some 0),
          (Text ''X'', 2018, Some ''geral'', Some 20, Some 1)]"
  by (simp add: exemplo_spec_df_def eval_defs)

lemma preparar_exemplo_tendencia:
  "preparar_df_long coerce_integers exemplo_tendencia_df = Inr exemplo_tendencia_long"
  by (simp add: exemplo_tendencia_df_def exemplo_tendencia_long_def eval_defs)

lemma preparar_exemplo_repetido:
  "preparar_df_long coerce_integers exemplo_repetido_df = Inr exemplo_repetido_long"
  by (simp add: exemplo_repetido_df_def exemplo_repetido_long_def eval_defs)

lemma df_tipo_de_exemplo_geral:
  "df_tipo_de exemplo_long ''geral'' = take 4 exemplo_long"
  by (simp add: df_tipo_de_def exemplo_long_def)

lemma df_tipo_de_exemplo_leitos:
  "df_tipo_de exemplo_long ''leitos_uti'' = drop 4 exemplo_long"
  by (simp add: df_tipo_de_def exemplo_long_def)



lemmas rank_defs =
  rank_media_def media_ano_def groupby_mean_def municipio_key_def ano_key_def
  sort_values_def s_mean_def

lemma rank_media_exemplo_geral:
  "rank_media (df_tipo_de exemplo_long ''geral'') = [(Text ''Y'', Some 30), (Text ''X'', Some 15)]"
  by (simp add: df_tipo_de_exemplo_geral) (simp add: exemplo_long_def rank_defs)

lemma rank_media_exemplo_leitos:
  "rank_media (df_tipo_de exemplo_long ''leitos_uti'') = [(Text ''Y'', Some 5), (Text ''X'', None)]"
  by (simp add: df_tipo_de_exemplo_leitos) (simp add: exemplo_long_def rank_defs)

text \<open>Two rows for one municipality: the pivot by municipality and key finds two values.\<close>

lemma roundtrip_needs_distinct_municipios:
  "preparar_df_long coerce_integers exemplo_repetido_df = Inr exemplo_repetido_long \<and>
   spec_pivot exemplo_repetido_long (Text ''X'') (2017, Some ''geral'') = None \<and>
   \<not> spec_roundtrip exemplo_repetido_df exemplo_repetido_long"
proof -
  have p: "spec_pivot exemplo_repetido_long (Text ''X'') (2017, Some ''geral'') = None"
    by (simp add: spec_pivot_def exemplo_repetido_long_def)
  have k: "key_of_col ''2017_geral'' = Some (2017, Some ''geral'')"
    by (simp add: key_of_col_def int_of_str_def strip_def is_space_def digit_val_def)
  have m: "cell_at (columns exemplo_repetido_df) (rows exemplo_repetido_df ! 0) municipio_col = Text ''X''"
    by (simp add: exemplo_repetido_df_def cell_at_def)
  have r: "rows exemplo_repetido_df ! 0 \<in> set (rows exemplo_repetido_df)"
    by (simp add: exemplo_repetido_df_def)
  have v: "''2017_geral'' \<in> set (value_cols exemplo_repetido_df)"
    by (simp add: exemplo_repetido_df_def value_cols_def municipio_col_def)
  have "\<not> spec_roundtrip exemplo_repetido_df exemplo_repetido_long"
  proof
    assume "spec_roundtrip exemplo_repetido_df exemplo_repetido_long"
    then have "case key_of_col ''2017_geral'' of None \<Rightarrow> False
       | Some k \<Rightarrow> map_option cell_of_valor
            (spec_pivot exemplo_repetido_long
               (cell_at (columns exemplo_repetido_df) (rows exemplo_repetido_df ! 0) municipio_col) k)
          = Some (cell_at (columns exemplo_repetido_df) (rows exemplo_repetido_df ! 0) ''2017_geral'')"
      unfolding spec_roundtrip_def using r v by blast
    then show False by (simp add: k m p)
  qed
  with preparar_exemplo_repetido p show ?thesis by simp
qed

section \<open>The claims\<close>

text \<open>
  \<^bold>\<open>C1\<close>, evaluated on the code. Year means 100 in 2017 and 94 in 2018: \<^verbatim>\<open>sort_values()\<close> orders
  the means by value, so the smaller, later mean comes first; \<^verbatim>\<open>valor_ini\<close> is 94 and
  \<^verbatim>\<open>valor_fim\<close> is 100, and the label is the decline one, not the growth one.
\<close>

theorem tendencia_sorted_by_value:
  "preparar_df_long coerce_integers exemplo_tendencia_df = Inr exemplo_tendencia_long \<and>
   groupby_mean ano_key (df_tipo_de exemplo_tendencia_long ''geral'')
     = [(2017, Some 100), (2018, Some 94)] \<and>
   media_ano (df_tipo_de exemplo_tendencia_long ''geral'') = [(2018, Some 94), (2017, Some 100)] \<and>
   tendencia_de (media_ano (df_tipo_de exemplo_tendencia_long ''geral'')) = Queda \<and>
   tendencia_de [(2017, Some 100), (2018, Some 94)] = Crescimento"
proof -
  have g: "df_tipo_de exemplo_tendencia_long ''geral'' = exemplo_tendencia_long"
    by (simp add: df_tipo_de_def exemplo_tendencia_long_def)
  have a: "groupby_mean ano_key exemplo_tendencia_long = [(2017, Some 100), (2018, Some 94)]"
    by (simp add: exemplo_tendencia_long_def groupby_mean_def ano_key_def s_mean_def)
  have m: "media_ano exemplo_tendencia_long = [(2018, Some 94), (2017, Some 100)]"
    by (simp add: media_ano_def a sort_values_def)
  have t: "tendencia_de [(2018, Some 94), (2017, Some 100)] = Queda"
          "tendencia_de [(2017, Some 100), (2018, Some 94)] = Crescimento"
    by (simp_all add: tendencia_de_def)
  show ?thesis
    using preparar_exemplo_tendencia by (simp add: g a m t)
qed

text \<open>
  \<^bold>\<open>C2\<close>, as the code has it. When the wide table is reshaped, its municipality cells are
  pairwise different, its value columns give pairwise different year/type keys, and none
  of its value cells holds text, then pivoting the long table's values back by municipality
  and year/type key gives the wide table again: the same municipalities, the same keys, and
  at every municipality and key the cell of the wide table.
\<close>

theorem roundtrip_numeric_cells:
  assumes "preparar_df_long P df = Inr df_long"
    and "distinct (map (\<lambda>r. cell_at (columns df) r municipio_col) (rows df))"
    and "distinct (map key_of_col (value_cols df))"
    and "\<forall>r \<in> set (rows df). \<forall>c \<in> set (value_cols df). \<forall>s. cell_at (columns df) r c \<noteq> Text s"
  shows "spec_roundtrip df df_long"
proof -
  let ?M = "length (rows df)"
  let ?mun = "\<lambda>r. cell_at (columns df) r municipio_col"
  note S = preparar_df_long_sets[OF assms(1)]
  have len: "length df_long = length (value_cols df) * ?M"
    using preparar_df_long_Inr(3)[OF assms(1)] by (simp add: length_melt)
  have keys: "set (map (\<lambda>r. Some (ano r, tipo r)) df_long) = set (map key_of_col (value_cols df))"
  proof -
    have "map (\<lambda>r. Some (ano r, tipo r)) df_long = map key_of_col (map ano_variavel df_long)"
      using key_of_col_label[OF assms(1)] by simp
    then show ?thesis using S(2) by (simp del: map_map)
  qed
  have cellwise: "case key_of_col c of None \<Rightarrow> False
       | Some k \<Rightarrow> map_option cell_of_valor (spec_pivot df_long (?mun r) k) = Some (cell_at (columns df) r c)"
    if r: "r \<in> set (rows df)" and c: "c \<in> set (value_cols df)" for r c
  proof -
    from r obtain i where i: "i < ?M" and ri: "rows df ! i = r"
      by (auto simp: in_set_conv_nth)
    from c obtain j where j: "j < length (value_cols df)" and cj: "value_cols df ! j = c"
      by (auto simp: in_set_conv_nth)
    let ?k = "j * ?M + i"
    note N = preparar_df_long_nth[OF assms(1) j i]
    have mem: "df_long ! ?k \<in> set df_long" using N(1) by simp
    have key: "key_of_col c = Some (ano (df_long ! ?k), tipo (df_long ! ?k))"
      using key_of_col_label[OF assms(1) mem] N(3) cj by simp
    let ?Q = "\<lambda>x. municipio x = ?mun r \<and> (ano x, tipo x) = (ano (df_long ! ?k), tipo (df_long ! ?k))"
    have Qk: "?Q (df_long ! ?k)" using N(2) ri by simp
    have uniq: "k' = ?k" if k': "k' < length df_long" and Q: "?Q (df_long ! k')" for k'
    proof -
      from k' len have j': "k' div ?M < length (value_cols df)" and i': "k' mod ?M < ?M"
        and eq: "k' = (k' div ?M) * ?M + k' mod ?M"
        using index_split[of k' "length (value_cols df)" ?M] by simp_all
      note N' = preparar_df_long_nth[OF assms(1) j' i', folded eq]
      have mem': "df_long ! k' \<in> set df_long" using k' by simp
      have "?mun (rows df ! (k' mod ?M)) = ?mun (rows df ! i)"
        using Q N'(2) ri by simp
      then have "map ?mun (rows df) ! (k' mod ?M) = map ?mun (rows df) ! i"
        using i i' by simp
      moreover have "k' mod ?M < length (map ?mun (rows df))" "i < length (map ?mun (rows df))"
        using i i' by simp_all
      ultimately have ii: "k' mod ?M = i"
        using nth_eq_iff_index_eq[OF assms(2)] by blast
      have "key_of_col (value_cols df ! (k' div ?M)) = Some (ano (df_long ! k'), tipo (df_long ! k'))"
        using key_of_col_label[OF assms(1) mem'] N'(3) by simp
      also have "\<dots> = key_of_col (value_cols df ! j)"
        using Q key cj by simp
      finally have "map key_of_col (value_cols df) ! (k' div ?M) = map key_of_col (value_cols df) ! j"
        using j j' by simp
      moreover have "k' div ?M < length (map key_of_col (value_cols df))"
        "j < length (map key_of_col (value_cols df))"
        using j j' by simp_all
      ultimately have jj: "k' div ?M = j"
        using nth_eq_iff_index_eq[OF assms(3)] by blast
      from eq ii jj show ?thesis by simp
    qed
    have "filter ?Q df_long = [df_long ! ?k]"
      using N(1) Qk uniq by (rule filter_eq_singleton)
    then have piv: "spec_pivot df_long (?mun r) (ano (df_long ! ?k), tipo (df_long ! ?k))
                 = Some (valor (df_long ! ?k))"
      by (simp add: spec_pivot_def)
    have "\<forall>s. cell_at (columns df) r c \<noteq> Text s" using assms(4) r c by blast
    then have "cell_of_valor (valor (df_long ! ?k)) = cell_at (columns df) r c"
      using N(4) ri cj by (simp add: cell_of_valor_to_numeric)
    then show ?thesis by (simp add: key piv)
  qed
  show ?thesis
    unfolding spec_roundtrip_def using S(1) keys cellwise by blast
qed

theorem roundtrip_numeric_cells_witness:
  "preparar_df_long coerce_integers exemplo_tendencia_df = Inr exemplo_tendencia_long \<and>
   map key_of_col (value_cols exemplo_tendencia_df)
     = [Some (2017, Some ''geral''), Some (2018, Some ''geral'')] \<and>
   spec_roundtrip exemplo_tendencia_df exemplo_tendencia_long \<and>
   spec_pivot exemplo_tendencia_long (Text ''X'') (2018, Some ''geral'') = Some (Some 94) \<and>
   spec_pivot exemplo_tendencia_long (Text ''Y'') (2018, Some ''geral'') = Some None"
proof -
  have vc: "value_cols exemplo_tendencia_df = [''2017_geral'', ''2018_geral'']"
    by (simp add: exemplo_tendencia_df_def value_cols_def municipio_col_def)
  have k: "map key_of_col (value_cols exemplo_tendencia_df)
     = [Some (2017, Some ''geral''), Some (2018, Some ''geral'')]"
    by (simp add: vc key_of_col_def int_of_str_def strip_def is_space_def digit_val_def)
  have h2: "distinct (map (\<lambda>r. cell_at (columns exemplo_tendencia_df) r municipio_col)
                      (rows exemplo_tendencia_df))"
    by (simp add: exemplo_tendencia_df_def cell_at_def)
  have h3: "distinct (map key_of_col (value_cols exemplo_tendencia_df))"
    by (simp add: k)
  have h4: "\<forall>r \<in> set (rows exemplo_tendencia_df). \<forall>c \<in> set (value_cols exemplo_tendencia_df).
              \<forall>s. cell_at (columns exemplo_tendencia_df) r c \<noteq> Text s"
    by (simp add: vc) (simp add: exemplo_tendencia_df_def cell_at_def municipio_col_def)
  have p: "spec_pivot exemplo_tendencia_long (Text ''X'') (2018, Some ''geral'') = Some (Some 94)"
          "spec_pivot exemplo_tendencia_long (Text ''Y'') (2018, Some ''geral'') = Some None"
    by (simp_all add: spec_pivot_def exemplo_tendencia_long_def)
  show ?thesis
    using roundtrip_numeric_cells[OF preparar_exemplo_tendencia h2 h3 h4]
      preparar_exemplo_tendencia k p by simp
qed

text \<open>
  The claim as first stated fails on the example, which the reshaper accepts: the cell of
  \<open>X\<close> in column \<open>2018_leitos_uti\<close> holds the text \<open>n/d\<close>, the long table has a missing value
  there, and the pivot gives back a null, not the text.
\<close>

theorem roundtrip_counterexample:
  "preparar_df_long coerce_integers exemplo_df = Inr exemplo_long \<and>
   cell_at (columns exemplo_df) (rows exemplo_df ! 0) ''2018_leitos_uti'' = Text ''n/d'' \<and>
   key_of_col ''2018_leitos_uti'' = Some (2018, Some ''leitos_uti'') \<and>
   spec_pivot exemplo_long (Text ''X'') (2018, Some ''leitos_uti'') = Some None \<and>
   \<not> spec_roundtrip exemplo_df exemplo_long"
proof -
  have c: "cell_at (columns exemplo_df) (rows exemplo_df ! 0) ''2018_leitos_uti'' = Text ''n/d''"
    and m: "cell_at (columns exemplo_df) (rows exemplo_df ! 0) municipio_col = Text ''X''"
    by (simp_all add: exemplo_df_def cell_at_def municipio_col_def)
  have k: "key_of_col ''2018_leitos_uti'' = Some (2018, Some ''leitos_uti'')"
    by (simp add: key_of_col_def int_of_str_def strip_def is_space_def digit_val_def)
  have p: "spec_pivot exemplo_long (Text ''X'') (2018, Some ''leitos_uti'') = Some None"
    by (simp add: spec_pivot_def exemplo_long_def)
  have r: "rows exemplo_df ! 0 \<in> set (rows exemplo_df)"
    by (simp add: exemplo_df_def)
  have v: "''2018_leitos_uti'' \<in> set (value_cols exemplo_df)"
    by (simp add: value_cols_exemplo)
  have "\<not> spec_roundtrip exemplo_df exemplo_long"
  proof
    assume "spec_roundtrip exemplo_df exemplo_long"
    then have "case key_of_col ''2018_leitos_uti'' of None \<Rightarrow> False
       | Some k \<Rightarrow> map_option cell_of_valor
            (spec_pivot exemplo_long (cell_at (columns exemplo_df) (rows exemplo_df ! 0) municipio_col) k)
          = Some (cell_at (columns exemplo_df) (rows exemplo_df ! 0) ''2018_leitos_uti'')"
      unfolding spec_roundtrip_def using r v by blast
    then show False by (simp add: k m p c)
  qed
  with preparar_exemplo c k p show ?thesis by simp
qed






text \<open>
  \<^bold>\<open>C5.\<close> Whenever the reshaper returns a long table for a wide table with \<open>N\<close> columns other
  than the municipality column and \<open>M\<close> rows, the long table has exactly \<open>N * M\<close> rows.
\<close>

theorem long_table_row_count:
  assumes "preparar_df_long P df = Inr df_long"
  shows "length df_long = length (value_cols df) * length (rows df)"
  using preparar_df_long_Inr(3)[OF assms] by (simp add: length_melt)

theorem long_table_row_count_witness:
  "preparar_df_long coerce_integers exemplo_df = Inr exemplo_long \<and>
   length exemplo_long = 3 * 2 \<and>
   length (value_cols exemplo_df) = 3 \<and> length (rows exemplo_df) = 2"
  using long_table_row_count[OF preparar_exemplo] preparar_exemplo
  by (simp add: value_cols_exemplo) (simp add: exemplo_df_def)

text \<open>
  \<^bold>\<open>C6.\<close> A table without the municipality column makes the reshaper raise its validation
  error instead of returning a long table, and the script stops on that error: the run ends
  with the error message and no long table, so no chart or aggregate of the sections is
  computed.
\<close>

theorem missing_municipio_column_halts:
  assumes "municipio_col \<notin> set (columns df)"
  shows "preparar_df_long P df = Inl Municipio_nao_encontrada \<and>
         carregar P (Some df) = Stop (Error_ao_preparar Municipio_nao_encontrada)"
  using assms by (simp add: preparar_df_long_def carregar_def)

theorem missing_municipio_column_halts_witness:
  "municipio_col \<notin> set (columns exemplo_sem_municipio) \<and>
   preparar_df_long coerce_integers exemplo_sem_municipio = Inl Municipio_nao_encontrada \<and>
   carregar coerce_integers (Some exemplo_sem_municipio)
     = Stop (Error_ao_preparar Municipio_nao_encontrada)"
proof -
  have h: "municipio_col \<notin> set (columns exemplo_sem_municipio)"
    by (simp add: exemplo_sem_municipio_def municipio_col_def)
  show ?thesis
    using h missing_municipio_column_halts[OF h, of coerce_integers] by simp
qed

text \<open>
  \<^bold>\<open>C7.\<close> A cell holding text that the number parser rejects gives a missing value in its
  row of the long table, not zero; no cell content can make the reshaper raise (a table with
  the same columns and as many rows is reshaped whatever its cells hold); and mean, minimum,
  maximum and standard deviation of a series are those of its present values alone.
\<close>

theorem non_numeric_cell_is_missing:
  assumes "preparar_df_long P df = Inr df_long"
    and "j < length (value_cols df)" and "i < length (rows df)"
    and "cell_at (columns df) (rows df ! i) (value_cols df ! j) = Text s" and "P s = None"
  shows "valor (df_long ! (j * length (rows df) + i)) = None \<and>
         valor (df_long ! (j * length (rows df) + i)) \<noteq> Some 0 \<and>
         (\<forall>P' rs. length rs = length (rows df) \<longrightarrow>
                  (\<exists>l. preparar_df_long P' (df\<lparr>rows := rs\<rparr>) = Inr l)) \<and>
         (\<forall>ser. s_mean ser = s_mean (filter (\<lambda>v. v \<noteq> None) ser) \<and>
                s_min ser = s_min (filter (\<lambda>v. v \<noteq> None) ser) \<and>
                s_max ser = s_max (filter (\<lambda>v. v \<noteq> None) ser) \<and>
                s_std ser = s_std (filter (\<lambda>v. v \<noteq> None) ser))"
proof -
  have v: "valor (df_long ! (j * length (rows df) + i)) = None"
    using preparar_df_long_nth(4)[OF assms(1,2,3)] assms(4,5) by simp
  have acc: "\<exists>l. preparar_df_long P' (df\<lparr>rows := rs\<rparr>) = Inr l"
    if "length rs = length (rows df)" for P' rs
  proof -
    have "\<exists>long. preparar_df_long P df = Inr long" using assms(1) by blast
    then have "municipio_col \<in> set (columns df) \<and> rows df \<noteq> [] \<and>
       (\<exists>c \<in> set (value_cols df). CHR ''_'' \<in> set c) \<and>
       (\<forall>c \<in> set (value_cols df). int_of_str (takeWhile (\<lambda>x. x \<noteq> CHR ''_'') c) \<noteq> None)"
      unfolding preparar_df_long_accepts_iff .
    moreover have "rs \<noteq> []" using that calculation by auto
    ultimately show ?thesis
      unfolding preparar_df_long_accepts_iff by (simp add: value_cols_def)
  qed
  have st: "s_mean ser = s_mean (filter (\<lambda>v. v \<noteq> None) ser) \<and>
            s_min ser = s_min (filter (\<lambda>v. v \<noteq> None) ser) \<and>
            s_max ser = s_max (filter (\<lambda>v. v \<noteq> None) ser) \<and>
            s_std ser = s_std (filter (\<lambda>v. v \<noteq> None) ser)" for ser
    unfolding s_mean_def s_min_def s_max_def s_std_def dropna_filter_present by simp
  from v acc st show ?thesis by simp
qed

theorem non_numeric_cell_is_missing_witness:
  "preparar_df_long coerce_integers exemplo_df = Inr exemplo_long \<and>
   cell_at (columns exemplo_df) (rows exemplo_df ! 0) (value_cols exemplo_df ! 2) = Text ''n/d'' \<and>
   coerce_integers ''n/d'' = None \<and>
   valor (exemplo_long ! 4) = None \<and>
   s_mean [Some 10, None, Some 30] = s_mean [Some 10, Some 30] \<and>
   s_mean [Some 10, None, Some 30] = Some 20"
proof -
  have j: "(2::nat) < length (value_cols exemplo_df)" by (simp add: value_cols_exemplo)
  have i: "(0::nat) < length (rows exemplo_df)" by (simp add: exemplo_df_def)
  have c: "cell_at (columns exemplo_df) (rows exemplo_df ! 0) (value_cols exemplo_df ! 2) = Text ''n/d''"
    by (simp add: value_cols_exemplo) (simp add: exemplo_df_def cell_at_def municipio_col_def)
  have p: "coerce_integers ''n/d'' = None"
    by (simp add: coerce_integers_def int_of_str_def strip_def is_space_def digit_val_def)
  note T = non_numeric_cell_is_missing[OF preparar_exemplo j i c p]
  from T have "valor (exemplo_long ! (2 * length (rows exemplo_df) + 0)) = None" by blast
  moreover from T have "s_mean [Some 10, None, Some 30] = s_mean (filter (\<lambda>v. v \<noteq> None) [Some 10, None, Some 30])"
    by blast
  ultimately show ?thesis
    using preparar_exemplo c p by (simp add: exemplo_df_def) (simp add: s_mean_def)
qed

text \<open>
  \<^bold>\<open>C8\<close>, as the code has it. For a chosen type the section shows only a warning when none
  of the rows of that type has a value. Otherwise the ranking lists every municipality of
  those rows exactly once (rows with a null municipality are left out), each with the mean
  of its present values, missing when it has none; the entries are in descending order of
  the mean, those with a missing mean last; and the text of the section quotes the first
  three.
\<close>

theorem rank_media_by_type:
  fixes df_long :: "long_row list" and sel :: selecao
  defines "df_tipo \<equiv> df_tipo_de df_long (tipo_escolhido sel)"
  defines "rank \<equiv> rank_media df_tipo"
  shows "(serie_por_tipo df_long sel = Warning_sem_valores_numericos
            \<longleftrightarrow> (\<forall>r \<in> set df_tipo. valor r = None)) \<and>
         (\<forall>plot top3 trend. serie_por_tipo df_long sel = Grafico_e_interpretacao plot top3 trend
            \<longrightarrow> top3 = take 3 rank) \<and>
         set (map fst rank) = {m. m \<noteq> Null \<and> (\<exists>r \<in> set df_tipo. municipio r = m)} \<and>
         distinct (map fst rank) \<and>
         (\<forall>m v. (m, v) \<in> set rank
            \<longrightarrow> v = s_mean (map valor (filter (\<lambda>r. municipio r = m) df_tipo))) \<and>
         (\<forall>i j. i < j \<and> j < length rank \<longrightarrow> desc_order (snd (rank ! i)) (snd (rank ! j)))"
proof (intro conjI allI impI)
  have "dropna s = [] \<longleftrightarrow> (\<forall>v \<in> set s. v = None)" for s
    by (induction s rule: dropna.induct) auto
  then have "length (dropna (map valor df_tipo)) = 0 \<longleftrightarrow> (\<forall>r \<in> set df_tipo. valor r = None)"
    by simp
  then show "serie_por_tipo df_long sel = Warning_sem_valores_numericos
            \<longleftrightarrow> (\<forall>r \<in> set df_tipo. valor r = None)"
    unfolding serie_por_tipo_def Let_def df_tipo_def by simp
next
  fix plot top3 trend
  assume "serie_por_tipo df_long sel = Grafico_e_interpretacao plot top3 trend"
  then show "top3 = take 3 rank"
    unfolding serie_por_tipo_def Let_def rank_def df_tipo_def by (simp split: if_splits)
next
  have "set (map fst rank) = {m. \<exists>r \<in> set df_tipo. municipio_key r = Some m}"
    unfolding rank_def rank_media_def sort_values_keys
    by (rule groupby_mean_keys(1))
  also have "\<dots> = {m. m \<noteq> Null \<and> (\<exists>r \<in> set df_tipo. municipio r = m)}"
    by (auto simp: municipio_key_def)
  finally show "set (map fst rank) = {m. m \<noteq> Null \<and> (\<exists>r \<in> set df_tipo. municipio r = m)}" .
next
  show "distinct (map fst rank)"
    unfolding rank_def rank_media_def
    by (intro sort_values_distinct_keys groupby_mean_keys(2))
next
  fix m v assume "(m, v) \<in> set rank"
  then have mem: "(m, v) \<in> set (groupby_mean municipio_key df_tipo)"
    by (simp add: rank_def rank_media_def sort_values_set)
  then have "m \<in> set (map fst (groupby_mean municipio_key df_tipo))" by force
  then have "m \<noteq> Null"
    unfolding groupby_mean_keys(1) by (auto simp: municipio_key_def split: if_splits)
  with groupby_mean_entry[OF mem]
  show "v = s_mean (map valor (filter (\<lambda>r. municipio r = m) df_tipo))"
    by (simp add: filter_municipio_key)
next
  fix i j assume "i < j \<and> j < length rank"
  then show "desc_order (snd (rank ! i)) (snd (rank ! j))"
    unfolding rank_def rank_media_def by (intro sort_values_desc) simp_all
qed

theorem rank_media_by_type_witness:
  "tipo_escolhido exemplo_selecao = ''geral'' \<and>
   exemplo_long ! 0 \<in> set (df_tipo_de exemplo_long ''geral'') \<and>
   valor (exemplo_long ! 0) = Some 10 \<and>
   serie_por_tipo exemplo_long exemplo_selecao \<noteq> Warning_sem_valores_numericos \<and>
   rank_media (df_tipo_de exemplo_long ''geral'') = [(Text ''Y'', Some 30), (Text ''X'', Some 15)] \<and>
   desc_order (Some 30) (Some 15) \<and>
   Some 15 = s_mean (map valor (filter (\<lambda>r. municipio r = Text ''X'') (df_tipo_de exemplo_long ''geral'')))"
proof -
  have t: "tipo_escolhido exemplo_selecao = ''geral''" by (simp add: exemplo_selecao_def)
  have m0: "exemplo_long ! 0 \<in> set (df_tipo_de exemplo_long ''geral'')"
    by (simp add: df_tipo_de_exemplo_geral) (simp add: exemplo_long_def)
  have v0: "valor (exemplo_long ! 0) = Some 10" by (simp add: exemplo_long_def)
  note T = rank_media_by_type[of exemplo_long exemplo_selecao, unfolded t rank_media_exemplo_geral]
  from T m0 v0 have w: "serie_por_tipo exemplo_long exemplo_selecao \<noteq> Warning_sem_valores_numericos"
    by force
  from T have "(0::nat) < 1 \<and> 1 < length [(Text ''Y'', Some (30::real)), (Text ''X'', Some (15::real))]
      \<longrightarrow> desc_order (snd ([(Text ''Y'', Some (30::real)), (Text ''X'', Some (15::real))] ! 0))
                     (snd ([(Text ''Y'', Some (30::real)), (Text ''X'', Some (15::real))] ! 1))"
    by blast
  then have d: "desc_order (Some 30) (Some 15)" by simp
  from T have "(Text ''X'', Some 15) \<in> set [(Text ''Y'', Some (30::real)), (Text ''X'', Some (15::real))]
      \<longrightarrow> Some 15 = s_mean (map valor (filter (\<lambda>r. municipio r = Text ''X'') (df_tipo_de exemplo_long ''geral'')))"
    by blast
  then have e: "Some 15 = s_mean (map valor (filter (\<lambda>r. municipio r = Text ''X'') (df_tipo_de exemplo_long ''geral'')))"
    by simp
  show ?thesis using t m0 v0 w d e rank_media_exemplo_geral by simp
qed

text \<open>
  The claim as first stated fails on the example: for the type \<open>leitos_uti\<close> municipality
  \<open>X\<close> has a single row, whose value is missing, and it is in the ranking all the same, with
  a missing mean.
\<close>

theorem rank_media_by_type_counterexample:
  "preparar_df_long coerce_integers exemplo_df = Inr exemplo_long \<and>
   df_tipo_de exemplo_long ''leitos_uti'' = [exemplo_long ! 4, exemplo_long ! 5] \<and>
   municipio (exemplo_long ! 4) = Text ''X'' \<and> valor (exemplo_long ! 4) = None \<and>
   municipio (exemplo_long ! 5) = Text ''Y'' \<and> valor (exemplo_long ! 5) = Some 5 \<and>
   rank_media (df_tipo_de exemplo_long ''leitos_uti'') = [(Text ''Y'', Some 5), (Text ''X'', None)]"
proof -
  have "df_tipo_de exemplo_long ''leitos_uti'' = [exemplo_long ! 4, exemplo_long ! 5]"
    by (simp add: df_tipo_de_exemplo_leitos) (simp add: exemplo_long_def)
  moreover have "municipio (exemplo_long ! 4) = Text ''X''" "valor (exemplo_long ! 4) = None"
    "municipio (exemplo_long ! 5) = Text ''Y''" "valor (exemplo_long ! 5) = Some 5"
    by (simp_all add: exemplo_long_def)
  ultimately show ?thesis
    using preparar_exemplo rank_media_exemplo_leitos by simp
qed





end
